theory Spec2Isabelle
  imports Main
begin

section \<open>Python values\<close>

text \<open>
  A Python \<open>str\<close> is modelled as the list of its characters (\<open>string\<close>), so that
  \<open>length\<close> is Python's \<open>len\<close> and \<open>[]\<close> is the only falsy string. A \<open>bytes\<close>
  value is a \<open>string\<close> too; the conversions between the two (\<open>str.encode\<close>,
  \<open>bytes.decode\<close>) are library functions that can raise and are parameters of the
  model (see \<open>env\<close> below). A naive \<open>datetime\<close> is the number of microseconds since
  a fixed origin, and a \<open>timedelta\<close> is a number of microseconds.
\<close>

type_synonym datetime = int

definition timedelta_minutes :: "int \<Rightarrow> int" where
  "timedelta_minutes m = m * 60000000"

definition timedelta_days :: "int \<Rightarrow> int" where
  \<comment> \<open>the attribute \<open>.days\<close> of a timedelta: whole days, rounded down\<close>
  "timedelta_days d = d div 86400000000"

text \<open>
  Exceptions are values. \<open>HTTPException\<close> carries the status code and the detail;
  \<open>ValueError\<close> is kept apart because the source catches it by class; every other
  exception class is \<open>OtherError\<close> with its message.
\<close>

datatype exn = HTTPException nat string | ValueError string | OtherError string

definition and_then :: "exn + 'a \<Rightarrow> ('a \<Rightarrow> exn + 'b) \<Rightarrow> exn + 'b" where
  \<comment> \<open>sequencing of two statements, the first of which may raise\<close>
  "and_then r f = (case r of Inl e \<Rightarrow> Inl e | Inr v \<Rightarrow> f v)"

definition digit_char :: "nat \<Rightarrow> char" where
  "digit_char d = ''0123456789'' ! d"

function str_nat :: "nat \<Rightarrow> string" where
  "str_nat n = (if n < 10 then [digit_char n] else str_nat (n div 10) @ [digit_char (n mod 10)])"
  by pat_completeness auto
termination
  by (relation "measure (\<lambda>n. n)") auto

declare str_nat.simps [simp del]

definition str_int :: "int \<Rightarrow> string" where
  \<comment> \<open>\<open>str(i)\<close> for a Python int\<close>
  "str_int i = (if i < 0 then CHR ''-'' # str_nat (nat (- i)) else str_nat (nat i))"

definition str_exn :: "exn \<Rightarrow> string" where
  \<comment> \<open>\<open>str(e)\<close>; for an HTTPException, Starlette prints status and detail\<close>
  "str_exn e = (case e of
      HTTPException st d \<Rightarrow> str_nat st @ '': '' @ d
    | ValueError m \<Rightarrow> m
    | OtherError m \<Rightarrow> m)"

section \<open>Documents: models/user.py\<close>

text \<open>
  Both classes are Beanie documents. The field \<open>id\<close> is the one Beanie adds:
  \<open>None\<close> until the document is inserted.
\<close>

record User =
  id :: "nat option"
  email :: string
  full_name :: string
  date_of_birth :: "datetime option"
  organization_type :: string
  organization_name :: "string option"
  hashed_password :: "string option"
  google_id :: "string option"
  is_email_verified :: bool
  is_active :: bool
  is_superuser :: bool
  created_at :: datetime
  updated_at :: "datetime option"

record PendingUser =
  id :: "nat option"
  email :: string
  full_name :: string
  date_of_birth :: datetime
  organization_type :: string
  organization_name :: "string option"
  hashed_password :: string
  otp_code :: string
  otp_created_at :: datetime
  otp_attempts :: int
  created_at :: datetime

definition is_otp_expired :: "PendingUser \<Rightarrow> int \<Rightarrow> datetime \<Rightarrow> bool" where
  \<comment> \<open>the last argument is the reading of \<open>datetime.utcnow()\<close>\<close>
  "is_otp_expired p expiry_minutes now =
     (let expiry_time = otp_created_at p + timedelta_minutes expiry_minutes
      in now > expiry_time)"

definition is_locked :: "PendingUser \<Rightarrow> int \<Rightarrow> bool" where
  "is_locked p max_attempts = (otp_attempts p \<ge> max_attempts)"

section \<open>The two collections\<close>

text \<open>
  The database holds the collections \<open>users\<close> and \<open>pending_users\<close>. Neither
  \<open>Settings\<close> class declares an index, so a collection is a list of documents in
  insertion order, and nothing but the \<open>id\<close> identifies a document.
  \<open>next_id\<close> supplies the fresh identifier of the next insertion.
  MongoDB keeps a datetime to the millisecond, so what is written loses the
  microseconds below; the object the handler holds keeps them.
  Failures of the database connection itself are not modelled.
\<close>

record db =
  users :: "User list"
  pending_users :: "PendingUser list"
  next_id :: nat

definition bson_datetime :: "datetime \<Rightarrow> datetime" where
  \<comment> \<open>a datetime as the database keeps it: whole milliseconds, rounded down\<close>
  "bson_datetime t = t - t mod 1000"

definition stored_user :: "User \<Rightarrow> User" where
  "stored_user u =
     u\<lparr>User.date_of_birth := map_option bson_datetime (User.date_of_birth u),
       User.created_at := bson_datetime (User.created_at u),
       User.updated_at := map_option bson_datetime (User.updated_at u)\<rparr>"

definition stored_pending :: "PendingUser \<Rightarrow> PendingUser" where
  "stored_pending p =
     p\<lparr>PendingUser.date_of_birth := bson_datetime (PendingUser.date_of_birth p),
       otp_created_at := bson_datetime (otp_created_at p),
       PendingUser.created_at := bson_datetime (PendingUser.created_at p)\<rparr>"

definition find_user :: "db \<Rightarrow> string \<Rightarrow> User option" where
  \<comment> \<open>\<open>User.find_one(User.email == e)\<close>\<close>
  "find_user s e = find (\<lambda>u. User.email u = e) (users s)"

definition find_pending :: "db \<Rightarrow> string \<Rightarrow> PendingUser option" where
  \<comment> \<open>\<open>PendingUser.find_one(PendingUser.email == e)\<close>\<close>
  "find_pending s e = find (\<lambda>p. PendingUser.email p = e) (pending_users s)"

definition insert_user :: "User \<Rightarrow> db \<Rightarrow> User \<times> db" where
  \<comment> \<open>\<open>user.insert()\<close>: the document gets a fresh id and is added\<close>
  "insert_user u s =
     (let u' = u\<lparr>User.id := Some (next_id s)\<rparr>
      in (u', s\<lparr>users := users s @ [stored_user u'], next_id := Suc (next_id s)\<rparr>))"

definition insert_pending :: "PendingUser \<Rightarrow> db \<Rightarrow> PendingUser \<times> db" where
  "insert_pending p s =
     (let p' = p\<lparr>PendingUser.id := Some (next_id s)\<rparr>
      in (p', s\<lparr>pending_users := pending_users s @ [stored_pending p'],
                next_id := Suc (next_id s)\<rparr>))"

definition save_user :: "User \<Rightarrow> db \<Rightarrow> db" where
  \<comment> \<open>\<open>user.save()\<close>: replace the document of that id, insert it when there is none\<close>
  "save_user u s =
     (if User.id u \<in> set (map User.id (users s))
      then s\<lparr>users := map (\<lambda>d. if User.id d = User.id u then stored_user u else d) (users s)\<rparr>
      else s\<lparr>users := users s @ [stored_user u]\<rparr>)"

definition save_pending :: "PendingUser \<Rightarrow> db \<Rightarrow> db" where
  "save_pending p s =
     (if PendingUser.id p \<in> set (map PendingUser.id (pending_users s))
      then s\<lparr>pending_users :=
              map (\<lambda>d. if PendingUser.id d = PendingUser.id p then stored_pending p else d)
                (pending_users s)\<rparr>
      else s\<lparr>pending_users := pending_users s @ [stored_pending p]\<rparr>)"

definition delete_pending :: "PendingUser \<Rightarrow> db \<Rightarrow> db" where
  \<comment> \<open>\<open>pending_user.delete()\<close>: removes the document of that id\<close>
  "delete_pending p s =
     s\<lparr>pending_users := filter (\<lambda>d. PendingUser.id d \<noteq> PendingUser.id p) (pending_users s)\<rparr>"

section \<open>Library functions and configuration\<close>

text \<open>
  The functions of the libraries the repository calls (pydantic's \<open>EmailStr\<close>,
  \<open>datetime.strptime\<close>, the UTF-8 codec, \<open>hashlib\<close>, \<open>bcrypt\<close>, \<open>jose.jwt\<close>) and the
  configured frontend URL are the fields of one record that every handler takes.
  The results of input and output (the clocks, the random OTP and salt, whether the
  mail was sent, the answer of the identity provider) are arguments of the handlers.

  \<open>validate_email\<close> is what a field of type \<open>EmailStr\<close> does with a string: it raises
  with a reason, or it returns the address in its normalised form, which need not be
  the string it was given. The request models have such a field, so the email of a
  request a handler receives is a normalised one; a document built from an address
  that was validated before is taken to keep it as it is.

  An entry of the decoded identity token is absent, null or a string.
\<close>

datatype json = Absent | JsonNull | JsonStr string

definition dict_get :: "json \<Rightarrow> string option" where
  \<comment> \<open>\<open>user_data.get(key)\<close>: \<open>None\<close> for an absent key and for a null\<close>
  "dict_get j = (case j of Absent \<Rightarrow> None | JsonNull \<Rightarrow> None | JsonStr v \<Rightarrow> Some v)"

definition dict_get_default :: "json \<Rightarrow> string \<Rightarrow> string option" where
  \<comment> \<open>\<open>user_data.get(key, d)\<close>: the default for an absent key only\<close>
  "dict_get_default j d = (case j of Absent \<Rightarrow> Some d | JsonNull \<Rightarrow> None | JsonStr v \<Rightarrow> Some v)"

definition format_value :: "string option \<Rightarrow> string" where
  \<comment> \<open>a value inside an f-string\<close>
  "format_value v = (case v of None \<Rightarrow> ''None'' | Some x \<Rightarrow> x)"

record token_claims =
  sub :: string
  user_id :: "nat option"
  exp :: datetime

record id_claims =
  claim_email :: json
  claim_sub :: json
  claim_name :: json
  claim_given_name :: json
  claim_family_name :: json

record env =
  frontend_url :: string
  validate_email :: "string \<Rightarrow> exn + string"
  strptime_ymd :: "string \<Rightarrow> exn + datetime"
  str_encode :: "string \<Rightarrow> exn + string"
  bytes_decode :: "string \<Rightarrow> exn + string"
  sha256_hexdigest :: "string \<Rightarrow> string"
  bcrypt_hashpw :: "string \<Rightarrow> string \<Rightarrow> exn + string"
  bcrypt_checkpw :: "string \<Rightarrow> string \<Rightarrow> exn + bool"
  jwt_encode :: "token_claims \<Rightarrow> string"
  jwt_decode_unverified :: "string \<Rightarrow> exn + id_claims"

section \<open>utils/password.py\<close>

definition hash_password :: "env \<Rightarrow> string \<Rightarrow> string \<Rightarrow> exn + string" where
  \<comment> \<open>the second argument is the result of \<open>bcrypt.gensalt(rounds=12)\<close>; the
      \<open>isinstance\<close> test cannot fail on a \<open>str\<close>; the first \<open>encode\<close> is the one whose
      length is printed\<close>
  "hash_password E salt password =
     (if password = [] then Inl (ValueError ''Password cannot be empty'')
      else
        and_then (str_encode E password) (\<lambda>_.
        and_then (str_encode E password) (\<lambda>password_bytes.
          let sha256_hash = sha256_hexdigest E password_bytes in
          (case and_then (str_encode E sha256_hash) (\<lambda>sha_bytes.
                and_then (bcrypt_hashpw E sha_bytes salt) (\<lambda>bcrypt_hash.
                  bytes_decode E bcrypt_hash))
           of Inl e \<Rightarrow> Inl (ValueError (''Password hashing failed: '' @ str_exn e))
            | Inr hash_string \<Rightarrow> Inr hash_string))))"

definition verify_password :: "env \<Rightarrow> string \<Rightarrow> string \<Rightarrow> exn + bool" where
  "verify_password E plain_password hashed =
     (if plain_password = [] \<or> hashed = [] then Inr False
      else
        (case and_then (str_encode E plain_password) (\<lambda>password_bytes.
              let sha256_hash = sha256_hexdigest E password_bytes in
              and_then (str_encode E sha256_hash) (\<lambda>sha_bytes.
              and_then (str_encode E hashed) (\<lambda>hash_bytes.
                bcrypt_checkpw E sha_bytes hash_bytes)))
         of Inl e \<Rightarrow> Inr False
          | Inr result \<Rightarrow> Inr result))"

section \<open>routers/auth.py\<close>

record user_summary =
  email :: string
  full_name :: string
  organization_type :: string

datatype response =
    MessageResponse string string int
  | VerifiedResponse string string string user_summary
  | TokenResponse string string user_summary
  | RedirectResponse string

definition ACCESS_TOKEN_EXPIRE_MINUTES :: int where
  "ACCESS_TOKEN_EXPIRE_MINUTES = 60"

definition create_access_token :: "env \<Rightarrow> datetime \<Rightarrow> string \<Rightarrow> nat option \<Rightarrow> string" where
  "create_access_token E now subject uid =
     (let expire = now + timedelta_minutes ACCESS_TOKEN_EXPIRE_MINUTES
      in jwt_encode E \<lparr>sub = subject, user_id = uid, exp = expire\<rparr>)"

definition http_boundary :: "(exn \<Rightarrow> string) \<Rightarrow> (exn + response) \<times> db \<Rightarrow> (exn + response) \<times> db" where
  \<comment> \<open>\<open>except HTTPException: raise\<close>, \<open>except Exception as e: raise HTTPException(400, ...)\<close>;
      what the handler wrote to the database before raising stays written\<close>
  "http_boundary detail r =
     (case fst r of
        Inl (HTTPException st d) \<Rightarrow> r
      | Inl e \<Rightarrow> (Inl (HTTPException 400 (detail e)), snd r)
      | Inr v \<Rightarrow> r)"

record VerifyOTPRequest =
  email :: string
  otp :: string

definition user_summary_of :: "User \<Rightarrow> user_summary" where
  "user_summary_of u =
     \<lparr>user_summary.email = User.email u,
      user_summary.full_name = User.full_name u,
      user_summary.organization_type = User.organization_type u\<rparr>"

definition verify_otp :: "env \<Rightarrow> datetime \<Rightarrow> VerifyOTPRequest \<Rightarrow> db \<Rightarrow> (exn + response) \<times> db" where
  "verify_otp E now verification s =
     http_boundary (\<lambda>e. ''Email verification failed'')
     (case find_pending s (VerifyOTPRequest.email verification) of
        None \<Rightarrow>
          (Inl (HTTPException 404 ''No pending verification found. Please sign up again.''), s)
      | Some pending_user \<Rightarrow>
          if is_otp_expired pending_user 10 now then
            (Inl (HTTPException 400 ''OTP has expired. Please sign up again.''),
             delete_pending pending_user s)
          else if is_locked pending_user 5 then
            (Inl (HTTPException 429 ''Too many failed attempts. Please sign up again.''), s)
          else if otp_code pending_user \<noteq> otp verification then
            (let pending_user' = pending_user\<lparr>otp_attempts := otp_attempts pending_user + 1\<rparr>;
                 s1 = save_pending pending_user' s;
                 remaining_attempts = 5 - otp_attempts pending_user'
             in (Inl (HTTPException 400
                   (''Invalid OTP. '' @ str_int remaining_attempts @ '' attempts remaining.'')), s1))
          else
            (let user = \<lparr>User.id = None,
                         User.email = PendingUser.email pending_user,
                         User.full_name = PendingUser.full_name pending_user,
                         User.date_of_birth = Some (PendingUser.date_of_birth pending_user),
                         User.organization_type = PendingUser.organization_type pending_user,
                         User.organization_name = PendingUser.organization_name pending_user,
                         User.hashed_password = Some (PendingUser.hashed_password pending_user),
                         User.google_id = None,
                         User.is_email_verified = True,
                         User.is_active = True,
                         User.is_superuser = False,
                         User.created_at = now,
                         User.updated_at = None\<rparr>;
                 (user', s1) = insert_user user s;
                 s2 = delete_pending pending_user s1;
                 access_token = create_access_token E now (User.email user') (User.id user')
             in (Inr (VerifiedResponse ''Email verified successfully! Welcome to KAANOONGPT!''
                        access_token ''bearer'' (user_summary_of user')), s2)))"

record SignupRequest =
  full_name :: string
  email :: string
  date_of_birth :: string
  organization_type :: string
  organization_name :: "string option"
  password :: string
  confirm_password :: string

definition signup ::
  "env \<Rightarrow> datetime \<Rightarrow> string \<Rightarrow> string \<Rightarrow> bool \<Rightarrow> SignupRequest \<Rightarrow> db \<Rightarrow> (exn + response) \<times> db" where
  \<comment> \<open>\<open>salt\<close> is what \<open>bcrypt.gensalt\<close> returns, \<open>new_otp\<close> what \<open>generate_otp()\<close> returns,
      \<open>email_sent\<close> what \<open>send_otp_email(...)\<close> returns (it catches every exception itself)\<close>
  "signup E now salt new_otp email_sent signup_data s =
     http_boundary (\<lambda>e. ''Signup failed: '' @ str_exn e)
     (case find_user s (SignupRequest.email signup_data) of
        Some existing_user \<Rightarrow>
          (Inl (HTTPException 400
                  ''Email already registered. Please login or use a different email.''), s)
      | None \<Rightarrow>
          (let pending_user = find_pending s (SignupRequest.email signup_data) in
           case strptime_ymd E (SignupRequest.date_of_birth signup_data) of
             Inl (ValueError m) \<Rightarrow>
               (Inl (HTTPException 400 ''Invalid date format. Expected YYYY-MM-DD''), s)
           | Inl e \<Rightarrow> (Inl e, s)
           | Inr dob \<Rightarrow>
              (case hash_password E salt (SignupRequest.password signup_data) of
                 Inl e \<Rightarrow>
                   (Inl (HTTPException 400 (''Failed to hash password: '' @ str_exn e)), s)
               | Inr hashed_pwd \<Rightarrow>
                  (let (pending_user', s1) =
                         (case pending_user of
                            Some p \<Rightarrow>
                              (let p' = p\<lparr>PendingUser.full_name := SignupRequest.full_name signup_data,
                                           PendingUser.date_of_birth := dob,
                                           PendingUser.organization_type :=
                                             SignupRequest.organization_type signup_data,
                                           PendingUser.organization_name :=
                                             SignupRequest.organization_name signup_data,
                                           PendingUser.hashed_password := hashed_pwd,
                                           otp_code := new_otp,
                                           otp_created_at := now,
                                           otp_attempts := 0\<rparr>
                               in (p', save_pending p' s))
                          | None \<Rightarrow>
                              insert_pending
                                \<lparr>PendingUser.id = None,
                                 PendingUser.email = SignupRequest.email signup_data,
                                 PendingUser.full_name = SignupRequest.full_name signup_data,
                                 PendingUser.date_of_birth = dob,
                                 PendingUser.organization_type =
                                   SignupRequest.organization_type signup_data,
                                 PendingUser.organization_name =
                                   SignupRequest.organization_name signup_data,
                                 PendingUser.hashed_password = hashed_pwd,
                                 otp_code = new_otp,
                                 otp_created_at = now,
                                 otp_attempts = 0,
                                 PendingUser.created_at = now\<rparr> s);
                       warning_printed = (\<not> email_sent)
                   in (Inr (MessageResponse
                              ''OTP sent successfully! Please check your email to verify your account.''
                              (PendingUser.email pending_user') 10), s1)))))"

record ResendOTPRequest =
  email :: string

definition resend_otp ::
  "datetime \<Rightarrow> string \<Rightarrow> bool \<Rightarrow> ResendOTPRequest \<Rightarrow> db \<Rightarrow> (exn + response) \<times> db" where
  "resend_otp now new_otp email_sent resend_data s =
     http_boundary (\<lambda>e. ''Failed to resend OTP'')
     (case find_pending s (ResendOTPRequest.email resend_data) of
        None \<Rightarrow>
          (Inl (HTTPException 404 ''No pending verification found. Please sign up again.''), s)
      | Some pending_user \<Rightarrow>
          (let pending_user' = pending_user\<lparr>otp_code := new_otp,
                                             otp_created_at := now,
                                             otp_attempts := 0\<rparr>;
               s1 = save_pending pending_user' s
           in if \<not> email_sent then
                (Inl (HTTPException 500 ''Failed to send OTP email. Please try again.''), s1)
              else
                (Inr (MessageResponse ''New OTP sent successfully! Please check your email.''
                        (PendingUser.email pending_user') 10), s1)))"

record LoginRequest =
  email :: string
  password :: string

definition falsy :: "string option \<Rightarrow> bool" where
  \<comment> \<open>\<open>not v\<close> for an optional string: \<open>None\<close> and the empty string\<close>
  "falsy v = (case v of None \<Rightarrow> True | Some x \<Rightarrow> x = [])"

definition login :: "env \<Rightarrow> datetime \<Rightarrow> LoginRequest \<Rightarrow> db \<Rightarrow> (exn + response) \<times> db" where
  "login E now login_data s =
     http_boundary (\<lambda>e. ''Login failed'')
     (case find_user s (LoginRequest.email login_data) of
        None \<Rightarrow> (Inl (HTTPException 401 ''Invalid email or password''), s)
      | Some user \<Rightarrow>
          (case User.hashed_password user of
             None \<Rightarrow> (Inl (HTTPException 401 ''Invalid email or password''), s)
           | Some hashed \<Rightarrow>
               if hashed = [] then (Inl (HTTPException 401 ''Invalid email or password''), s)
               else
                 (case verify_password E (LoginRequest.password login_data) hashed of
                    Inl e \<Rightarrow> (Inl e, s)
                  | Inr ok \<Rightarrow>
                      if \<not> ok then (Inl (HTTPException 401 ''Invalid email or password''), s)
                      else if \<not> is_email_verified user then
                        (Inl (HTTPException 403 ''Please verify your email before logging in''), s)
                      else if \<not> is_active user then
                        (Inl (HTTPException 403 ''Account is inactive''), s)
                      else
                        (let access_token =
                               create_access_token E now (User.email user) (User.id user)
                         in (Inr (TokenResponse access_token ''bearer'' (user_summary_of user)),
                             s)))))"

definition is_space :: "char \<Rightarrow> bool" where
  \<comment> \<open>the characters \<open>str.strip()\<close> removes, among the first 256 code points\<close>
  "is_space c = (of_char c \<in> {9, 10, 11, 12, 13, 28, 29, 30, 31, 32, 133, 160 :: nat})"

definition strip :: "string \<Rightarrow> string" where
  "strip x = rev (dropWhile is_space (rev (dropWhile is_space x)))"

definition claims_full_name :: "id_claims \<Rightarrow> exn + string" where
  \<comment> \<open>the three statements that extract the full name; \<open>email.split('@')\<close> raises
      AttributeError when the claims carry no email\<close>
  "claims_full_name user_data =
     (let name0 = dict_get_default (claim_name user_data) [];
          name1 = (if falsy name0 then
                     (let first_name = dict_get_default (claim_given_name user_data) [];
                          last_name = dict_get_default (claim_family_name user_data) []
                      in strip (format_value first_name @ '' '' @ format_value last_name))
                   else (case name0 of Some n \<Rightarrow> n | None \<Rightarrow> []))
      in if name1 = [] then
           (case dict_get (claim_email user_data) of
              None \<Rightarrow> Inl (OtherError ''AttributeError'')
            | Some m \<Rightarrow> Inr (takeWhile (\<lambda>c. c \<noteq> CHR ''@'') m))
         else Inr name1)"

definition find_or_create_user ::
  "env \<Rightarrow> datetime \<Rightarrow> string \<Rightarrow> string option \<Rightarrow> string \<Rightarrow> db \<Rightarrow> (exn + User) \<times> db" where
  \<comment> \<open>\<open>User.find_one\<close> on the email as the claims give it, then the two branches of
      \<open>if not user\<close>; constructing a User validates the email, raises when it is not
      one, and keeps its normalised form\<close>
  "find_or_create_user E now m gid name s =
     (case find_user s m of
        None \<Rightarrow>
          (case validate_email E m of
             Inl e \<Rightarrow> (Inl e, s)
           | Inr normalised \<Rightarrow>
              (let (user, s1) =
                     insert_user
                       \<lparr>User.id = None,
                        User.email = normalised,
                        User.full_name = name,
                        User.date_of_birth = None,
                        User.organization_type = ''individual'',
                        User.organization_name = None,
                        User.hashed_password = None,
                        User.google_id = gid,
                        User.is_email_verified = True,
                        User.is_active = True,
                        User.is_superuser = False,
                        User.created_at = now,
                        User.updated_at = None\<rparr> s
               in (Inr user, s1)))
      | Some user \<Rightarrow>
          if falsy (google_id user)
          then (let user' = user\<lparr>google_id := gid\<rparr> in (Inr user', save_user user' s))
          else (Inr user, s))"

definition callback_redirect :: "env \<Rightarrow> datetime \<Rightarrow> User \<Rightarrow> response" where
  "callback_redirect E now user =
     (let access_token = create_access_token E now (User.email user) (User.id user)
      in RedirectResponse (frontend_url E @ ''/auth/callback?token='' @ access_token))"

definition google_callback_try ::
  "env \<Rightarrow> datetime \<Rightarrow> exn + string option \<Rightarrow> db \<Rightarrow> (exn + response) \<times> db" where
  \<comment> \<open>the body of the \<open>try\<close>; \<open>exchanged\<close> is what \<open>get_access_token\<close> did: the exception
      it raised, or the \<open>id_token\<close> entry of the token it returned\<close>
  "google_callback_try E now exchanged s =
     (case exchanged of
        Inl e \<Rightarrow> (Inl e, s)
      | Inr id_token \<Rightarrow>
          if falsy id_token then (Inl (HTTPException 400 ''No id_token in response''), s)
          else
            (case jwt_decode_unverified E (case id_token of Some t \<Rightarrow> t | None \<Rightarrow> []) of
               Inl e \<Rightarrow> (Inl e, s)
             | Inr user_data \<Rightarrow>
                (let mail = dict_get (claim_email user_data);
                     gid = dict_get (claim_sub user_data)
                 in case claims_full_name user_data of
                      Inl e \<Rightarrow> (Inl e, s)
                    | Inr name \<Rightarrow>
                       if falsy mail \<or> falsy gid then
                         (Inl (HTTPException 400 ''Missing email or google_id''), s)
                       else
                         (case find_or_create_user E now
                                 (case mail of Some m \<Rightarrow> m | None \<Rightarrow> []) gid name s of
                            (Inl e, s1) \<Rightarrow> (Inl e, s1)
                          | (Inr user, s1) \<Rightarrow> (Inr (callback_redirect E now user), s1)))))"

definition google_callback ::
  "env \<Rightarrow> datetime \<Rightarrow> exn + string option \<Rightarrow> db \<Rightarrow> (exn + response) \<times> db" where
  \<comment> \<open>\<open>except Exception\<close>: every exception, HTTPException included, becomes the redirect\<close>
  "google_callback E now exchanged s =
     (case google_callback_try E now exchanged s of
        (Inl e, s') \<Rightarrow>
          (Inr (RedirectResponse (frontend_url E @ ''/auth/login?error=authentication_failed'')),
           s')
      | (Inr r, s') \<Rightarrow> (Inr r, s'))"

section \<open>models/schemas.py\<close>

fun join :: "string \<Rightarrow> string list \<Rightarrow> string" where
  \<comment> \<open>\<open>sep.join(xs)\<close>\<close>
  "join sep [] = []"
| "join sep [x] = x"
| "join sep (x # y # ys) = x @ sep @ join sep (y # ys)"

fun contains :: "string \<Rightarrow> string \<Rightarrow> bool" where
  \<comment> \<open>\<open>pat in text\<close> for two strings\<close>
  "contains pat [] = (pat = [])"
| "contains pat (c # cs) = (take (length pat) (c # cs) = pat \<or> contains pat cs)"

definition allowed :: "string list" where
  "allowed = [''law_firm'', ''corporate'', ''government'', ''ngo'', ''individual'',
              ''student'', ''other'']"

definition validate_organization_type :: "string \<Rightarrow> exn + string" where
  "validate_organization_type v =
     (if v \<notin> set allowed
      then Inl (ValueError (''organization_type must be one of: '' @ join '', '' allowed))
      else Inr v)"

definition passwords_match :: "string \<Rightarrow> string option \<Rightarrow> exn + string" where
  \<comment> \<open>the second argument is \<open>info.data.get('password')\<close>: the password when that field
      has passed its own validation, \<open>None\<close> when it has not\<close>
  "passwords_match v data_password =
     (case data_password of
        Some pw \<Rightarrow> if v \<noteq> pw then Inl (ValueError ''Passwords do not match'') else Inr v
      | None \<Rightarrow> Inr v)"

definition age_below :: "int \<Rightarrow> int \<Rightarrow> bool" where
  \<comment> \<open>\<open>days / 365.25 < years\<close>; 365.25 is 1461/4, and the test is written over the integers\<close>
  "age_below days years = (4 * days < 1461 * years)"

definition age_above :: "int \<Rightarrow> int \<Rightarrow> bool" where
  \<comment> \<open>\<open>days / 365.25 > years\<close>\<close>
  "age_above days years = (4 * days > 1461 * years)"

definition validate_date_of_birth :: "env \<Rightarrow> datetime \<Rightarrow> string \<Rightarrow> exn + string" where
  \<comment> \<open>the second argument is the reading of \<open>datetime.now()\<close>\<close>
  "validate_date_of_birth E now_local v =
     (case and_then (strptime_ymd E v) (\<lambda>dob.
             let days = timedelta_days (now_local - dob) in
             if age_below days 18 then Inl (ValueError ''You must be at least 18 years old'')
             else if age_above days 120 then Inl (ValueError ''Invalid date of birth'')
             else Inr v)
      of Inl (ValueError m) \<Rightarrow>
           if contains ''does not match format'' m
           then Inl (ValueError ''Date format must be YYYY-MM-DD'')
           else Inl (ValueError m)
       | Inl e \<Rightarrow> Inl e
       | Inr r \<Rightarrow> Inr r)"

text \<open>
  Validation of the request body against \<open>SignupRequest\<close>, as pydantic does it: the
  fields in the order of their declaration, each with its \<open>Field\<close> constraints and
  then its \<open>field_validator\<close>, all errors collected; the body is accepted when there is
  none, with the email in its normalised form. An error is the name of the field and
  the message.
\<close>

type_synonym field_error = "string \<times> string"

definition check_min_length :: "string \<Rightarrow> nat \<Rightarrow> string \<Rightarrow> field_error list" where
  "check_min_length field n v =
     (if length v < n
      then [(field, ''String should have at least '' @ str_nat n @ '' characters'')] else [])"

definition check_max_length :: "string \<Rightarrow> nat \<Rightarrow> string \<Rightarrow> field_error list" where
  "check_max_length field n v =
     (if length v > n
      then [(field, ''String should have at most '' @ str_nat n @ '' characters'')] else [])"

definition check_validator :: "string \<Rightarrow> exn + string \<Rightarrow> field_error list" where
  "check_validator field r =
     (case r of Inl e \<Rightarrow> [(field, ''Value error, '' @ str_exn e)] | Inr v \<Rightarrow> [])"

definition validate_SignupRequest ::
  "env \<Rightarrow> datetime \<Rightarrow> SignupRequest \<Rightarrow> field_error list + SignupRequest" where
  "validate_SignupRequest E now_local body =
     (let e_full_name =
            check_min_length ''full_name'' 2 (SignupRequest.full_name body) @
            check_max_length ''full_name'' 100 (SignupRequest.full_name body);
          r_email = validate_email E (SignupRequest.email body);
          e_email =
            (case r_email of
               Inl e \<Rightarrow> [(''email'', ''value is not a valid email address: '' @ str_exn e)]
             | Inr normalised \<Rightarrow> []);
          e_date_of_birth =
            check_validator ''date_of_birth''
              (validate_date_of_birth E now_local (SignupRequest.date_of_birth body));
          e_organization_type =
            check_validator ''organization_type''
              (validate_organization_type (SignupRequest.organization_type body));
          e_organization_name =
            (case SignupRequest.organization_name body of
               None \<Rightarrow> []
             | Some n \<Rightarrow> check_max_length ''organization_name'' 200 n);
          e_password = check_min_length ''password'' 10 (SignupRequest.password body);
          e_confirm_password =
            check_validator ''confirm_password''
              (passwords_match (SignupRequest.confirm_password body)
                 (if e_password = [] then Some (SignupRequest.password body) else None));
          errors = e_full_name @ e_email @ e_date_of_birth @ e_organization_type @
                   e_organization_name @ e_password @ e_confirm_password
      in if errors = [] then
           Inr (body\<lparr>SignupRequest.email :=
                       (case r_email of Inr normalised \<Rightarrow> normalised
                                      | Inl e \<Rightarrow> SignupRequest.email body)\<rparr>)
         else Inl errors)"

definition post_signup ::
  "env \<Rightarrow> datetime \<Rightarrow> datetime \<Rightarrow> string \<Rightarrow> string \<Rightarrow> bool \<Rightarrow> SignupRequest \<Rightarrow> db
     \<Rightarrow> field_error list + ((exn + response) \<times> db)" where
  \<comment> \<open>\<open>POST /auth/signup\<close>: the body is validated against the declared model, and the
      handler runs on the validated request only\<close>
  "post_signup E now_local now salt new_otp email_sent body s =
     (case validate_SignupRequest E now_local body of
        Inl errors \<Rightarrow> Inl errors
      | Inr signup_data \<Rightarrow> Inr (signup E now salt new_otp email_sent signup_data s))"

section \<open>Invariants of the collections\<close>

text \<open>
  What MongoDB guarantees of a collection (the identifiers are distinct; here also: they
  were handed out by \<open>next_id\<close>), together with the property the handlers keep of the
  pending registrations: one document per email.
\<close>

definition pending_ok :: "db \<Rightarrow> bool" where
  "pending_ok s =
     (distinct (map PendingUser.email (pending_users s)) \<and>
      distinct (map PendingUser.id (pending_users s)) \<and>
      list_all (\<lambda>p. case PendingUser.id p of None \<Rightarrow> False | Some n \<Rightarrow> n < next_id s)
        (pending_users s))"

section \<open>Concrete inputs\<close>

text \<open>
  A stand-in for the libraries, on which the handlers can be run: an address is one
  when it has an at-sign and is normalised by writing what follows the at-sign in lower
  case, the codec is the identity, the digest pads or cuts its input to 64 characters,
  the slow hash prefixes the salt and refuses more than 72 bytes, the token of a set of
  claims is its subject, and an identity token decodes to claims whose email is the
  token itself.
\<close>

definition lower_ascii :: "char \<Rightarrow> char" where
  "lower_ascii c =
     (case map_of (zip ''ABCDEFGHIJKLMNOPQRSTUVWXYZ'' ''abcdefghijklmnopqrstuvwxyz'') c of
        Some l \<Rightarrow> l
      | None \<Rightarrow> c)"

definition lower_domain :: "string \<Rightarrow> string" where
  "lower_domain a =
     takeWhile (\<lambda>c. c \<noteq> CHR ''@'') a @ map lower_ascii (dropWhile (\<lambda>c. c \<noteq> CHR ''@'') a)"

definition example_env :: env where
  "example_env =
     \<lparr>frontend_url = ''http://localhost:3000'',
      validate_email =
        (\<lambda>a. if CHR ''@'' \<in> set a then Inr (lower_domain a)
             else Inl (ValueError ''An email address must have an @-sign.'')),
      strptime_ymd = (\<lambda>v. if length v = 10 then Inr 0
                           else Inl (ValueError ''time data does not match format'')),
      str_encode = (\<lambda>x. Inr x),
      bytes_decode = (\<lambda>b. Inr b),
      sha256_hexdigest =
        (\<lambda>b. take 64
               (b @ ''0000000000000000000000000000000000000000000000000000000000000000'')),
      bcrypt_hashpw =
        (\<lambda>pw salt. if length pw > 72
                    then Inl (ValueError ''password cannot be longer than 72 bytes'')
                    else Inr (salt @ pw)),
      bcrypt_checkpw =
        (\<lambda>pw h. if length h < 29 then Inl (ValueError ''Invalid salt'')
                 else Inr (drop 29 h = pw)),
      jwt_encode = (\<lambda>c. ''jwt:'' @ sub c),
      jwt_decode_unverified =
        (\<lambda>t. if t = ''bad'' then Inl (OtherError ''JWTError'')
             else Inr \<lparr>claim_email = JsonStr t, claim_sub = JsonStr ''g-1'',
                       claim_name = Absent, claim_given_name = Absent,
                       claim_family_name = Absent\<rparr>)\<rparr>"

definition example_salt :: string where
  "example_salt = ''$2b$12$abcdefghijklmnopqrstuv''"

definition empty_db :: db where
  "empty_db = \<lparr>users = [], pending_users = [], next_id = 0\<rparr>"

definition signup_a :: SignupRequest where
  "signup_a =
     \<lparr>SignupRequest.full_name = ''Ann'',
      SignupRequest.email = ''a@x.com'',
      SignupRequest.date_of_birth = ''1990-01-01'',
      SignupRequest.organization_type = ''student'',
      SignupRequest.organization_name = None,
      SignupRequest.password = ''longpassword1'',
      SignupRequest.confirm_password = ''longpassword1''\<rparr>"

definition pending_a :: "int \<Rightarrow> PendingUser" where
  \<comment> \<open>a registration of a@x.com issued at time 0 with code 123456 and \<open>n\<close> failed attempts\<close>
  "pending_a n =
     \<lparr>PendingUser.id = Some 0,
      PendingUser.email = ''a@x.com'',
      PendingUser.full_name = ''Ann'',
      PendingUser.date_of_birth = 0,
      PendingUser.organization_type = ''student'',
      PendingUser.organization_name = None,
      PendingUser.hashed_password = ''h'',
      otp_code = ''123456'',
      otp_created_at = 0,
      otp_attempts = n,
      PendingUser.created_at = 0\<rparr>"

definition db_pending :: "int \<Rightarrow> db" where
  "db_pending n = \<lparr>users = [], pending_users = [pending_a n], next_id = 1\<rparr>"

definition verify_a :: "string \<Rightarrow> VerifyOTPRequest" where
  "verify_a code = \<lparr>VerifyOTPRequest.email = ''a@x.com'', otp = code\<rparr>"

definition user_a :: User where
  \<comment> \<open>a confirmed account of a@x.com with a stored password hash\<close>
  "user_a =
     \<lparr>User.id = Some 0,
      User.email = ''a@x.com'',
      User.full_name = ''Ann'',
      User.date_of_birth = Some 0,
      User.organization_type = ''student'',
      User.organization_name = None,
      User.hashed_password = Some ''$2b$12$abcdefghijklmnopqrstuvstored'',
      User.google_id = None,
      User.is_email_verified = True,
      User.is_active = True,
      User.is_superuser = False,
      User.created_at = 0,
      User.updated_at = None\<rparr>"

definition db_user :: db where
  "db_user = \<lparr>users = [user_a], pending_users = [], next_id = 1\<rparr>"

definition long_password :: string where
  \<comment> \<open>86 characters, more than the 72 bytes the slow hash takes\<close>
  "long_password =
     ''correct horse battery staple correct horse battery staple correct horse battery staple''"

section \<open>Reachable states\<close>

text \<open>
  The states of the database that the five handlers produce from the empty database,
  whatever the requests, the clock readings and the answers of the libraries.
\<close>

inductive reachable :: "db \<Rightarrow> bool" where
  start: "reachable empty_db"
| after_signup: "reachable s \<Longrightarrow> reachable (snd (signup E now salt new_otp email_sent d s))"
| after_verify_otp: "reachable s \<Longrightarrow> reachable (snd (verify_otp E now v s))"
| after_resend_otp: "reachable s \<Longrightarrow> reachable (snd (resend_otp now new_otp email_sent r s))"
| after_login: "reachable s \<Longrightarrow> reachable (snd (login E now l s))"
| after_google_callback: "reachable s \<Longrightarrow> reachable (snd (google_callback E now x s))"

section \<open>Helper lemmas\<close>

lemma http_boundary_http [simp]:
  "http_boundary d (Inl (HTTPException st m), s) = (Inl (HTTPException st m), s)"
  by (simp add: http_boundary_def)

lemma http_boundary_ok [simp]: "http_boundary d (Inr v, s) = (Inr v, s)"
  by (simp add: http_boundary_def)

lemma find_pending_email:
  "find_pending s e = Some p \<Longrightarrow> p \<in> set (pending_users s) \<and> PendingUser.email p = e"
  unfolding find_pending_def by (auto simp: find_Some_iff)

lemma find_user_None: "find_user s e = None \<Longrightarrow> e \<notin> set (map User.email (users s))"
  by (auto simp: find_user_def find_None_iff)

lemma find_user_Some: "find_user s e = Some u \<Longrightarrow> u \<in> set (users s) \<and> User.email u = e"
  unfolding find_user_def by (auto simp: find_Some_iff)

lemma stored_pending_key [simp]:
  "PendingUser.email (stored_pending p) = PendingUser.email p"
  "PendingUser.id (stored_pending p) = PendingUser.id p"
  by (simp_all add: stored_pending_def)

lemma stored_user_key [simp]:
  "User.email (stored_user u) = User.email u"
  "User.id (stored_user u) = User.id u"
  by (simp_all add: stored_user_def)

lemma str_nat_digit: "n < 10 \<Longrightarrow> str_nat n = [digit_char n]"
  by (simp add: str_nat.simps)

lemma str_nat_10: "str_nat 10 = ''10''"
  by (simp add: str_nat.simps[of 10] str_nat_digit digit_char_def)

lemma verify_password_returns: "\<exists>b. verify_password E p h = Inr b"
  by (auto simp: verify_password_def split: sum.splits)

section \<open>Lockout of a pending registration\<close>

text \<open>
  C1 (as amended). \<open>is_locked\<close> compares the counter with the cap by \<open>\<ge>\<close>, and the handler
  tests it before it compares the code. So a pending registration that is not expired
  and has 5 or more failed attempts answers every VerifyOTP call, whatever the code,
  with 429 and is left as it was. With 4 failed attempts it is not locked yet.
\<close>

theorem verify_otp_locked_at_five:
  assumes "find_pending s (VerifyOTPRequest.email v) = Some p"
    and "\<not> is_otp_expired p 10 now"
    and "5 \<le> otp_attempts p"
  shows "verify_otp E now v s =
           (Inl (HTTPException 429 ''Too many failed attempts. Please sign up again.''), s)"
  using assms by (simp add: verify_otp_def is_locked_def)

theorem verify_otp_locked_at_five_witness:
  "find_pending (db_pending 5) (VerifyOTPRequest.email (verify_a ''123456'')) = Some (pending_a 5) \<and>
   \<not> is_otp_expired (pending_a 5) 10 1000 \<and>
   5 \<le> otp_attempts (pending_a 5) \<and>
   otp (verify_a ''123456'') = otp_code (pending_a 5) \<and>
   verify_otp example_env 1000 (verify_a ''123456'') (db_pending 5) =
     (Inl (HTTPException 429 ''Too many failed attempts. Please sign up again.''), db_pending 5)"
proof -
  have f: "find_pending (db_pending 5) (VerifyOTPRequest.email (verify_a ''123456'')) =
             Some (pending_a 5)"
    by (simp add: find_pending_def db_pending_def verify_a_def pending_a_def)
  have e: "\<not> is_otp_expired (pending_a 5) 10 1000"
    by (simp add: is_otp_expired_def pending_a_def timedelta_minutes_def)
  have a: "5 \<le> otp_attempts (pending_a 5)"
    by (simp add: pending_a_def)
  have c: "otp (verify_a ''123456'') = otp_code (pending_a 5)"
    by (simp add: pending_a_def verify_a_def)
  from f e a c verify_otp_locked_at_five [OF f e a, of example_env] show ?thesis
    by simp
qed

text \<open>
  The claim as stated fails: after exactly 4 failed attempts, the correct code on the
  fifth call is accepted and the account is created.
\<close>

theorem verify_otp_fifth_correct_counterexample:
  "otp_attempts (pending_a 4) = 4 \<and>
   fst (verify_otp example_env 1000 (verify_a ''123456'') (db_pending 4)) =
     Inr (VerifiedResponse ''Email verified successfully! Welcome to KAANOONGPT!''
            ''jwt:a@x.com'' ''bearer''
            \<lparr>user_summary.email = ''a@x.com'', user_summary.full_name = ''Ann'',
             user_summary.organization_type = ''student''\<rparr>)"
  by (simp add: verify_otp_def find_pending_def db_pending_def pending_a_def verify_a_def
      is_otp_expired_def is_locked_def timedelta_minutes_def insert_user_def delete_pending_def
      create_access_token_def example_env_def user_summary_of_def Let_def)

lemma verify_otp_accepts_below_five:
  assumes "find_pending s (VerifyOTPRequest.email v) = Some p"
    and "\<not> is_otp_expired p 10 now"
    and "otp_attempts p < 5"
    and "otp v = otp_code p"
  shows "\<exists>tok u. fst (verify_otp E now v s) =
           Inr (VerifiedResponse ''Email verified successfully! Welcome to KAANOONGPT!''
                  tok ''bearer'' u)"
  using assms by (simp add: verify_otp_def is_locked_def Let_def split_beta)

section \<open>One pending registration per email\<close>

text \<open>
  Every handler keeps the collection of pending registrations with distinct emails and
  distinct identifiers, so every reachable state has at most one pending registration
  per email.
\<close>

lemma snd_http_boundary [simp]: "snd (http_boundary d r) = snd r"
  by (cases r) (auto simp: http_boundary_def split: sum.splits exn.splits)

lemma pending_ok_grow:
  assumes "pending_ok s" and "pending_users s' = pending_users s" and "next_id s \<le> next_id s'"
  shows "pending_ok s'"
  using assms by (auto simp: pending_ok_def list_all_iff split: option.splits)

lemma find_pending_None:
  "find_pending s e = None \<Longrightarrow> e \<notin> set (map PendingUser.email (pending_users s))"
  by (auto simp: find_pending_def find_None_iff)

lemma pending_ok_insert:
  assumes "pending_ok s" and "find_pending s (PendingUser.email p) = None"
  shows "pending_ok (snd (insert_pending p s))"
  using assms(1) find_pending_None[OF assms(2)]
  by (auto simp: pending_ok_def insert_pending_def Let_def list_all_iff split: option.splits)

lemma pending_ok_delete: "pending_ok s \<Longrightarrow> pending_ok (delete_pending p s)"
  by (auto simp: pending_ok_def delete_pending_def list_all_iff distinct_map_filter
      split: option.splits)

lemma pending_ok_save:
  assumes ok: "pending_ok s" and p: "p \<in> set (pending_users s)"
    and i: "PendingUser.id p' = PendingUser.id p"
    and e: "PendingUser.email p' = PendingUser.email p"
  shows "pending_ok (save_pending p' s)"
proof -
  let ?f = "\<lambda>d. if PendingUser.id d = PendingUser.id p' then stored_pending p' else d"
  have same: "d \<in> set (pending_users s) \<Longrightarrow> PendingUser.id d = PendingUser.id p \<Longrightarrow> d = p" for d
    using ok p by (auto simp: pending_ok_def distinct_map dest: inj_onD)
  have me: "map PendingUser.email (map ?f (pending_users s)) = map PendingUser.email (pending_users s)"
    using same i e by (auto simp: map_idI)
  have mi: "map PendingUser.id (map ?f (pending_users s)) = map PendingUser.id (pending_users s)"
    by (auto simp: map_idI)
  have l: "list_all (\<lambda>p. case PendingUser.id p of None \<Rightarrow> False | Some n \<Rightarrow> n < next_id s)
             (map ?f (pending_users s))"
    using ok p i by (auto simp: pending_ok_def list_all_iff)
  have "PendingUser.id p' \<in> set (map PendingUser.id (pending_users s))" using p i by force
  then have sv: "save_pending p' s = s\<lparr>pending_users := map ?f (pending_users s)\<rparr>"
    by (simp add: save_pending_def)
  have de: "distinct (map PendingUser.email (map ?f (pending_users s)))"
    using me ok by (simp only: pending_ok_def)
  have di: "distinct (map PendingUser.id (map ?f (pending_users s)))"
    using mi ok by (simp only: pending_ok_def)
  have "pending_ok (s\<lparr>pending_users := map ?f (pending_users s)\<rparr>)"
    using de di l by (auto simp: pending_ok_def list_all_iff split: option.splits)
  with sv show ?thesis by simp
qed

lemma pending_ok_signup:
  assumes ok: "pending_ok s"
  shows "pending_ok (snd (signup E now salt new_otp email_sent d s))"
proof (cases "find_pending s (SignupRequest.email d)")
  case None
  then show ?thesis
    using ok pending_ok_insert[OF ok, where p = "\<lparr>PendingUser.id = None,
                                 PendingUser.email = SignupRequest.email d,
                                 PendingUser.full_name = SignupRequest.full_name d,
                                 PendingUser.date_of_birth = dob,
                                 PendingUser.organization_type =
                                   SignupRequest.organization_type d,
                                 PendingUser.organization_name =
                                   SignupRequest.organization_name d,
                                 PendingUser.hashed_password = hashed_pwd,
                                 otp_code = new_otp,
                                 otp_created_at = now,
                                 otp_attempts = 0,
                                 PendingUser.created_at = now\<rparr>" for dob hashed_pwd]
    by (simp add: signup_def Let_def split_beta split: option.split sum.split exn.split)
next
  case (Some p)
  then have "p \<in> set (pending_users s)" by (simp add: find_pending_email)
  from pending_ok_save[OF ok this] Some ok show ?thesis
    by (simp add: signup_def Let_def split_beta split: option.split sum.split exn.split)
qed

lemma pending_ok_resend_otp:
  assumes ok: "pending_ok s"
  shows "pending_ok (snd (resend_otp now new_otp email_sent r s))"
proof (cases "find_pending s (ResendOTPRequest.email r)")
  case None
  with ok show ?thesis by (simp add: resend_otp_def)
next
  case (Some p)
  then have "p \<in> set (pending_users s)" by (simp add: find_pending_email)
  from pending_ok_save[OF ok this] Some ok show ?thesis
    by (simp add: resend_otp_def Let_def)
qed

lemma pending_ok_verify_otp:
  assumes ok: "pending_ok s"
  shows "pending_ok (snd (verify_otp E now v s))"
proof (cases "find_pending s (VerifyOTPRequest.email v)")
  case None
  with ok show ?thesis by (simp add: verify_otp_def)
next
  case (Some p)
  then have pin: "p \<in> set (pending_users s)" by (simp add: find_pending_email)
  have g: "pending_ok (snd (insert_user u s))" for u
    using ok by (rule pending_ok_grow) (simp_all add: insert_user_def Let_def)
  from pending_ok_save[OF ok pin] pending_ok_delete[OF ok] pending_ok_delete[OF g] Some ok
  show ?thesis
    by (simp add: verify_otp_def Let_def split_beta)
qed

lemma pending_ok_login: "pending_ok s \<Longrightarrow> pending_ok (snd (login E now l s))"
  by (simp add: login_def Let_def split: option.split sum.split)

lemma pending_ok_google_callback:
  assumes ok: "pending_ok s"
  shows "pending_ok (snd (google_callback E now x s))"
proof -
  have f: "pending_users (snd (find_or_create_user E now m gid name s)) = pending_users s \<and>
           next_id s \<le> next_id (snd (find_or_create_user E now m gid name s))" for m gid name
    by (simp add: find_or_create_user_def insert_user_def save_user_def Let_def split_beta
        split: option.split sum.split)
  have "pending_users (snd (google_callback_try E now x s)) = pending_users s \<and>
        next_id s \<le> next_id (snd (google_callback_try E now x s))"
    using f by (simp add: google_callback_try_def Let_def split_beta split: sum.split)
  then have "pending_users (snd (google_callback E now x s)) = pending_users s \<and>
        next_id s \<le> next_id (snd (google_callback E now x s))"
    by (simp add: google_callback_def split_beta split: sum.split)
  with ok show ?thesis by (blast intro: pending_ok_grow)
qed

lemma reachable_pending_ok: "reachable s \<Longrightarrow> pending_ok s"
proof (induction rule: reachable.induct)
  case start
  show ?case by (simp add: pending_ok_def empty_db_def)
qed (simp_all add: pending_ok_signup pending_ok_verify_otp pending_ok_resend_otp
      pending_ok_login pending_ok_google_callback)

lemma reachable_one_pending_per_email:
  "reachable s \<Longrightarrow> distinct (map PendingUser.email (pending_users s))"
  using reachable_pending_ok by (simp add: pending_ok_def)

section \<open>Expiry of a pending registration\<close>

lemma find_pending_deleted:
  assumes d: "distinct (map PendingUser.email (pending_users s))"
    and f: "find_pending s e = Some p"
  shows "find_pending (delete_pending p s) e = None"
proof -
  from f have pin: "p \<in> set (pending_users s)" and pe: "PendingUser.email p = e"
    using find_pending_email by blast+
  have "q \<in> set (pending_users s) \<Longrightarrow> PendingUser.email q = e \<Longrightarrow> q = p" for q
    using d pin pe by (auto simp: distinct_map dest: inj_onD)
  then show ?thesis
    by (auto simp: find_pending_def delete_pending_def find_None_iff)
qed

text \<open>
  C6. In a collection with one pending registration per email (every reachable state
  has such a collection, by \<open>reachable_one_pending_per_email\<close>), a VerifyOTP call made
  more than 10 minutes after the code was issued deletes the registration and fails
  with 400 "OTP has expired"; whatever the code and the time, the next VerifyOTP call
  for that email fails with 404 "No pending verification found".
\<close>

theorem verify_otp_expired_then_not_found:
  assumes "distinct (map PendingUser.email (pending_users s))"
    and "find_pending s (VerifyOTPRequest.email v) = Some p"
    and "now > otp_created_at p + timedelta_minutes 10"
    and "VerifyOTPRequest.email v' = VerifyOTPRequest.email v"
  shows "verify_otp E now v s =
           (Inl (HTTPException 400 ''OTP has expired. Please sign up again.''),
            delete_pending p s) \<and>
         p \<notin> set (pending_users (delete_pending p s)) \<and>
         verify_otp E now' v' (delete_pending p s) =
           (Inl (HTTPException 404 ''No pending verification found. Please sign up again.''),
            delete_pending p s)"
proof -
  have 1: "verify_otp E now v s =
           (Inl (HTTPException 400 ''OTP has expired. Please sign up again.''),
            delete_pending p s)"
    using assms(2,3) by (simp add: verify_otp_def is_otp_expired_def)
  have 2: "find_pending (delete_pending p s) (VerifyOTPRequest.email v') = None"
    using find_pending_deleted[OF assms(1,2)] assms(4) by simp
  have 3: "p \<notin> set (pending_users (delete_pending p s))"
    by (simp add: delete_pending_def)
  from 2 have 4: "verify_otp E now' v' (delete_pending p s) =
           (Inl (HTTPException 404 ''No pending verification found. Please sign up again.''),
            delete_pending p s)"
    by (simp add: verify_otp_def)
  from 1 3 4 show ?thesis by simp
qed

theorem verify_otp_expired_then_not_found_witness:
  "distinct (map PendingUser.email (pending_users (db_pending 0))) \<and>
   find_pending (db_pending 0) (VerifyOTPRequest.email (verify_a ''123456'')) = Some (pending_a 0) \<and>
   600000001 > otp_created_at (pending_a 0) + timedelta_minutes 10 \<and>
   verify_otp example_env 600000001 (verify_a ''123456'') (db_pending 0) =
     (Inl (HTTPException 400 ''OTP has expired. Please sign up again.''),
      \<lparr>users = [], pending_users = [], next_id = 1\<rparr>) \<and>
   verify_otp example_env 600000002 (verify_a ''123456'')
       \<lparr>users = [], pending_users = [], next_id = 1\<rparr> =
     (Inl (HTTPException 404 ''No pending verification found. Please sign up again.''),
      \<lparr>users = [], pending_users = [], next_id = 1\<rparr>)"
proof -
  have d: "distinct (map PendingUser.email (pending_users (db_pending 0)))"
    by (simp add: db_pending_def)
  have f: "find_pending (db_pending 0) (VerifyOTPRequest.email (verify_a ''123456'')) =
             Some (pending_a 0)"
    by (simp add: find_pending_def db_pending_def verify_a_def pending_a_def)
  have t: "600000001 > otp_created_at (pending_a 0) + timedelta_minutes 10"
    by (simp add: pending_a_def timedelta_minutes_def)
  have del: "delete_pending (pending_a 0) (db_pending 0) =
               \<lparr>users = [], pending_users = [], next_id = 1\<rparr>"
    by (simp add: delete_pending_def db_pending_def)
  from d f t
    verify_otp_expired_then_not_found [OF d f t refl, of example_env 600000002]
  show ?thesis
    by (simp add: del)
qed

section \<open>Login failures\<close>

text \<open>
  C5. A login for an email that has no account and a login with a password that does not
  verify against the stored hash of an existing account fail alike: HTTPException 401
  with the detail "Invalid email or password", and nothing is written.
\<close>

theorem login_uniform_failure:
  assumes "find_user s1 (LoginRequest.email r1) = None"
    and "find_user s2 (LoginRequest.email r2) = Some u"
    and "User.hashed_password u = Some h"
    and "verify_password E (LoginRequest.password r2) h \<noteq> Inr True"
  shows "login E now1 r1 s1 = (Inl (HTTPException 401 ''Invalid email or password''), s1) \<and>
         login E now2 r2 s2 = (Inl (HTTPException 401 ''Invalid email or password''), s2)"
proof -
  obtain b where b: "verify_password E (LoginRequest.password r2) h = Inr b"
    using verify_password_returns by blast
  with assms(4) have "\<not> b" by auto
  with b assms(1-3) show ?thesis by (simp add: login_def)
qed

theorem login_uniform_failure_witness:
  "find_user db_user ''nobody@x.com'' = None \<and>
   find_user db_user ''a@x.com'' = Some user_a \<and>
   verify_password example_env ''wrongpassword'' ''$2b$12$abcdefghijklmnopqrstuvstored'' = Inr False \<and>
   login example_env 7 \<lparr>LoginRequest.email = ''nobody@x.com'', password = ''longpassword1''\<rparr> db_user =
     (Inl (HTTPException 401 ''Invalid email or password''), db_user) \<and>
   login example_env 7 \<lparr>LoginRequest.email = ''a@x.com'', password = ''wrongpassword''\<rparr> db_user =
     (Inl (HTTPException 401 ''Invalid email or password''), db_user)"
proof -
  let ?r1 = "\<lparr>LoginRequest.email = ''nobody@x.com'', password = ''longpassword1''\<rparr>"
  let ?r2 = "\<lparr>LoginRequest.email = ''a@x.com'', password = ''wrongpassword''\<rparr>"
  have n: "find_user db_user (LoginRequest.email ?r1) = None"
    by (simp add: find_user_def db_user_def user_a_def)
  have f: "find_user db_user (LoginRequest.email ?r2) = Some user_a"
    by (simp add: find_user_def db_user_def user_a_def)
  have h: "User.hashed_password user_a = Some ''$2b$12$abcdefghijklmnopqrstuvstored''"
    by (simp add: user_a_def)
  have w: "verify_password example_env ''wrongpassword'' ''$2b$12$abcdefghijklmnopqrstuvstored'' =
             Inr False"
    by (simp add: verify_password_def and_then_def example_env_def)
  then have w': "verify_password example_env (LoginRequest.password ?r2)
                   ''$2b$12$abcdefghijklmnopqrstuvstored'' \<noteq> Inr True"
    by simp
  from n f w login_uniform_failure [OF n f h w', of 7 7] show ?thesis
    by simp
qed

section \<open>Failure of the notification\<close>

text \<open>
  C7. In \<open>signup\<close> the result of \<open>send_otp_email\<close> only decides whether a warning is
  printed: response and database are the same whether the mail went out or not, and
  when no account exists and date and password are accepted the response is the success
  payload. In \<open>resend_otp\<close>, for an existing pending registration, a failed send is
  answered with HTTPException 500.
\<close>

theorem notification_failure_asymmetry:
  "signup E now salt new_otp False d s = signup E now salt new_otp True d s \<and>
   (find_user s (SignupRequest.email d) = None \<longrightarrow>
    strptime_ymd E (SignupRequest.date_of_birth d) = Inr dob \<longrightarrow>
    hash_password E salt (SignupRequest.password d) = Inr hp \<longrightarrow>
      fst (signup E now salt new_otp False d s) =
        Inr (MessageResponse
               ''OTP sent successfully! Please check your email to verify your account.''
               (SignupRequest.email d) 10)) \<and>
   (find_pending s (ResendOTPRequest.email r) = Some p \<longrightarrow>
      fst (resend_otp now new_otp False r s) =
        Inl (HTTPException 500 ''Failed to send OTP email. Please try again.''))"
proof -
  have 1: "signup E now salt new_otp False d s = signup E now salt new_otp True d s"
    by (simp add: signup_def Let_def split: option.split sum.split exn.split prod.split)
  have 2: "fst (signup E now salt new_otp False d s) =
        Inr (MessageResponse
               ''OTP sent successfully! Please check your email to verify your account.''
               (SignupRequest.email d) 10)"
    if "find_user s (SignupRequest.email d) = None"
      "strptime_ymd E (SignupRequest.date_of_birth d) = Inr dob"
      "hash_password E salt (SignupRequest.password d) = Inr hp"
    using that
    by (auto simp: signup_def Let_def insert_pending_def
        split: option.splits prod.splits dest: find_pending_email)
  have 3: "fst (resend_otp now new_otp False r s) =
        Inl (HTTPException 500 ''Failed to send OTP email. Please try again.'')"
    if "find_pending s (ResendOTPRequest.email r) = Some p"
    using that by (simp add: resend_otp_def Let_def)
  from 1 2 3 show ?thesis by blast
qed

theorem notification_failure_asymmetry_witness:
  "find_user empty_db (SignupRequest.email signup_a) = None \<and>
   strptime_ymd example_env (SignupRequest.date_of_birth signup_a) = Inr 0 \<and>
   (\<exists>hp. hash_password example_env example_salt (SignupRequest.password signup_a) = Inr hp) \<and>
   fst (signup example_env 0 example_salt ''123456'' False signup_a empty_db) =
     Inr (MessageResponse
            ''OTP sent successfully! Please check your email to verify your account.''
            ''a@x.com'' 10) \<and>
   find_pending (db_pending 0) (ResendOTPRequest.email \<lparr>ResendOTPRequest.email = ''a@x.com''\<rparr>) =
     Some (pending_a 0) \<and>
   fst (resend_otp 5 ''654321'' False \<lparr>ResendOTPRequest.email = ''a@x.com''\<rparr> (db_pending 0)) =
     Inl (HTTPException 500 ''Failed to send OTP email. Please try again.'')"
proof -
  let ?hp = "''$2b$12$abcdefghijklmnopqrstuvlongpassword1000000000000000000000000000000000000000000000000000''"
  let ?r = "\<lparr>ResendOTPRequest.email = ''a@x.com''\<rparr>"
  have u: "find_user empty_db (SignupRequest.email signup_a) = None"
    by (simp add: find_user_def empty_db_def)
  have d: "strptime_ymd example_env (SignupRequest.date_of_birth signup_a) = Inr 0"
    by (simp add: example_env_def signup_a_def)
  have h: "hash_password example_env example_salt (SignupRequest.password signup_a) = Inr ?hp"
    by (simp add: hash_password_def and_then_def example_env_def example_salt_def signup_a_def)
  have p: "find_pending (db_pending 0) (ResendOTPRequest.email ?r) = Some (pending_a 0)"
    by (simp add: find_pending_def db_pending_def pending_a_def)
  have e: "SignupRequest.email signup_a = ''a@x.com''"
    by (simp add: signup_a_def)
  have a: "fst (signup example_env 0 example_salt ''123456'' False signup_a empty_db) =
     Inr (MessageResponse
            ''OTP sent successfully! Please check your email to verify your account.''
            (SignupRequest.email signup_a) 10)"
    using notification_failure_asymmetry
      [where E = example_env and now = 0 and salt = example_salt and new_otp = "''123456''"
         and d = signup_a and s = empty_db and dob = 0 and hp = ?hp
         and r = ?r and p = "pending_a 0"] u d h
    by blast
  have b: "fst (resend_otp 5 ''654321'' False ?r (db_pending 0)) =
     Inl (HTTPException 500 ''Failed to send OTP email. Please try again.'')"
    using notification_failure_asymmetry
      [where E = example_env and now = 5 and salt = example_salt and new_otp = "''654321''"
         and d = signup_a and s = "db_pending 0" and dob = 0 and hp = ?hp
         and r = ?r and p = "pending_a 0"] p
    by blast
  from u d h p a b show ?thesis
    by (simp add: e)
qed

section \<open>The federated login\<close>

lemma google_callback_try_success:
  "google_callback_try E now x s = (Inr r, s') \<Longrightarrow>
     \<exists>tok. r = RedirectResponse (frontend_url E @ ''/auth/callback?token='' @ tok)"
  by (auto simp: google_callback_try_def Let_def callback_redirect_def
      split: sum.splits if_splits prod.splits)

lemma claims_full_name_with_email:
  "claim_email c = JsonStr m \<Longrightarrow> \<exists>name. claims_full_name c = Inr name"
  by (simp add: claims_full_name_def dict_get_def Let_def)

lemma access_token_claims:
  "create_access_token E now m uid =
     jwt_encode E \<lparr>sub = m, user_id = uid, exp = now + 3600000000\<rparr>"
  by (simp add: create_access_token_def ACCESS_TOKEN_EXPIRE_MINUTES_def timedelta_minutes_def)

lemma google_callback_try_known_user:
  assumes "jwt_decode_unverified E t = Inr c" and "t \<noteq> []"
    and "claim_email c = JsonStr m" and "m \<noteq> []"
    and "claim_sub c = JsonStr g" and "g \<noteq> []"
    and "find_user s m = Some u"
  shows "fst (google_callback_try E now (Inr (Some t)) s) =
           Inr (RedirectResponse (frontend_url E @ ''/auth/callback?token='' @
                  jwt_encode E \<lparr>sub = User.email u, user_id = User.id u,
                                exp = now + 3600000000\<rparr>))"
proof -
  obtain name where "claims_full_name c = Inr name"
    using claims_full_name_with_email[OF assms(3)] by blast
  with assms show ?thesis
    by (simp add: google_callback_try_def falsy_def dict_get_def find_or_create_user_def
        callback_redirect_def access_token_claims Let_def)
qed

lemma google_callback_try_new_user:
  assumes "jwt_decode_unverified E t = Inr c" and "t \<noteq> []"
    and "claim_email c = JsonStr m" and "m \<noteq> []"
    and "claim_sub c = JsonStr g" and "g \<noteq> []"
    and "find_user s m = None" and "validate_email E m = Inr m'"
  shows "fst (google_callback_try E now (Inr (Some t)) s) =
           Inr (RedirectResponse (frontend_url E @ ''/auth/callback?token='' @
                  jwt_encode E \<lparr>sub = m', user_id = Some (next_id s),
                                exp = now + 3600000000\<rparr>))"
proof -
  obtain name where "claims_full_name c = Inr name"
    using claims_full_name_with_email[OF assms(3)] by blast
  with assms show ?thesis
    by (simp add: google_callback_try_def falsy_def dict_get_def find_or_create_user_def
        insert_user_def callback_redirect_def access_token_claims Let_def)
qed

lemma google_callback_try_rejected_email:
  assumes "jwt_decode_unverified E t = Inr c"
    and "claim_email c = JsonStr m"
    and "find_user s m = None" and "validate_email E m = Inl e"
  shows "\<exists>e'. google_callback_try E now (Inr (Some t)) s = (Inl e', s)"
proof -
  obtain name where "claims_full_name c = Inr name"
    using claims_full_name_with_email[OF assms(2)] by blast
  with assms show ?thesis
    by (simp add: google_callback_try_def falsy_def dict_get_def find_or_create_user_def
        Let_def)
qed

lemma google_callback_try_missing_claim:
  assumes "jwt_decode_unverified E t = Inr c"
    and "falsy (dict_get (claim_email c)) \<or> falsy (dict_get (claim_sub c))"
  shows "\<exists>e'. google_callback_try E now (Inr (Some t)) s = (Inl e', s)"
  using assms
  by (auto simp: google_callback_try_def Let_def split: sum.splits)

lemma google_callback_of_try:
  "fst (google_callback_try E now x s) = Inr r \<Longrightarrow> fst (google_callback E now x s) = Inr r"
  "google_callback_try E now x s = (Inl e, s') \<Longrightarrow>
     google_callback E now x s =
       (Inr (RedirectResponse (frontend_url E @ ''/auth/login?error=authentication_failed'')), s')"
  by (auto simp: google_callback_def split: prod.splits sum.splits)

text \<open>
  C8. \<open>google_callback\<close> never raises: it returns a redirect, either to
  \<open><frontend>/auth/login?error=authentication_failed\<close> or to
  \<open><frontend>/auth/callback?token=...\<close>. Every exception raised inside the \<open>try\<close>
  gives the former: a failed code exchange, a token response without an identity
  token, an identity token that does not decode, claims without an email or a subject,
  and an email that no User can be built from. When the claims carry an email and a
  subject, the callback redirects to \<open><frontend>/auth/callback?token=\<close> followed by the
  session token of the Identity: the one found for the email, or the one created, with
  an expiry 60 minutes after the request.
\<close>

theorem google_callback_always_redirects:
  "(\<exists>url s'. google_callback E now x s = (Inr (RedirectResponse url), s') \<and>
       (url = frontend_url E @ ''/auth/login?error=authentication_failed'' \<or>
        (\<exists>tok. url = frontend_url E @ ''/auth/callback?token='' @ tok))) \<and>
   (\<forall>e s'. google_callback_try E now x s = (Inl e, s') \<longrightarrow>
       google_callback E now x s =
         (Inr (RedirectResponse (frontend_url E @ ''/auth/login?error=authentication_failed'')), s')) \<and>
   (\<forall>e. x = Inl e \<longrightarrow>
       google_callback E now x s =
         (Inr (RedirectResponse (frontend_url E @ ''/auth/login?error=authentication_failed'')), s)) \<and>
   (\<forall>t. x = Inr t \<and> falsy t \<longrightarrow>
       google_callback E now x s =
         (Inr (RedirectResponse (frontend_url E @ ''/auth/login?error=authentication_failed'')), s)) \<and>
   (\<forall>t e. x = Inr (Some t) \<and> jwt_decode_unverified E t = Inl e \<longrightarrow>
       google_callback E now x s =
         (Inr (RedirectResponse (frontend_url E @ ''/auth/login?error=authentication_failed'')), s)) \<and>
   (\<forall>t c. x = Inr (Some t) \<and> jwt_decode_unverified E t = Inr c \<and>
           (falsy (dict_get (claim_email c)) \<or> falsy (dict_get (claim_sub c))) \<longrightarrow>
       google_callback E now x s =
         (Inr (RedirectResponse (frontend_url E @ ''/auth/login?error=authentication_failed'')), s)) \<and>
   (\<forall>t c m e. x = Inr (Some t) \<and> jwt_decode_unverified E t = Inr c \<and>
           claim_email c = JsonStr m \<and> find_user s m = None \<and> validate_email E m = Inl e \<longrightarrow>
       google_callback E now x s =
         (Inr (RedirectResponse (frontend_url E @ ''/auth/login?error=authentication_failed'')), s)) \<and>
   (\<forall>t c m g u. x = Inr (Some t) \<and> t \<noteq> [] \<and> jwt_decode_unverified E t = Inr c \<and>
           claim_email c = JsonStr m \<and> m \<noteq> [] \<and> claim_sub c = JsonStr g \<and> g \<noteq> [] \<and>
           find_user s m = Some u \<longrightarrow>
       fst (google_callback E now x s) =
         Inr (RedirectResponse (frontend_url E @ ''/auth/callback?token='' @
                jwt_encode E \<lparr>sub = User.email u, user_id = User.id u,
                              exp = now + 3600000000\<rparr>))) \<and>
   (\<forall>t c m g m'. x = Inr (Some t) \<and> t \<noteq> [] \<and> jwt_decode_unverified E t = Inr c \<and>
           claim_email c = JsonStr m \<and> m \<noteq> [] \<and> claim_sub c = JsonStr g \<and> g \<noteq> [] \<and>
           find_user s m = None \<and> validate_email E m = Inr m' \<longrightarrow>
       fst (google_callback E now x s) =
         Inr (RedirectResponse (frontend_url E @ ''/auth/callback?token='' @
                jwt_encode E \<lparr>sub = m', user_id = Some (next_id s),
                              exp = now + 3600000000\<rparr>)))"
proof -
  let ?fail = "Inr (RedirectResponse (frontend_url E @ ''/auth/login?error=authentication_failed''))
                 :: exn + response"
  obtain r s' where t: "google_callback_try E now x s = (r, s')"
    by (cases "google_callback_try E now x s")
  have 1: "\<exists>url s'. google_callback E now x s = (Inr (RedirectResponse url), s') \<and>
       (url = frontend_url E @ ''/auth/login?error=authentication_failed'' \<or>
        (\<exists>tok. url = frontend_url E @ ''/auth/callback?token='' @ tok))"
  proof (cases r)
    case (Inl e)
    with t show ?thesis by (simp add: google_callback_def)
  next
    case (Inr v)
    with t google_callback_try_success[of E now x s v s'] show ?thesis
      by (auto simp: google_callback_def)
  qed
  have 2: "\<forall>e s'. google_callback_try E now x s = (Inl e, s') \<longrightarrow>
       google_callback E now x s = (?fail, s')"
    by (simp add: google_callback_of_try)
  have 3: "\<forall>e. x = Inl e \<longrightarrow> google_callback E now x s = (?fail, s)"
    by (simp add: google_callback_def google_callback_try_def)
  have 4: "\<forall>t. x = Inr t \<and> falsy t \<longrightarrow> google_callback E now x s = (?fail, s)"
    by (simp add: google_callback_def google_callback_try_def)
  have 5: "\<forall>t e. x = Inr (Some t) \<and> jwt_decode_unverified E t = Inl e \<longrightarrow>
       google_callback E now x s = (?fail, s)"
    by (auto simp: google_callback_def google_callback_try_def falsy_def)
  have 6: "\<forall>t c. x = Inr (Some t) \<and> jwt_decode_unverified E t = Inr c \<and>
           (falsy (dict_get (claim_email c)) \<or> falsy (dict_get (claim_sub c))) \<longrightarrow>
       google_callback E now x s = (?fail, s)"
    using google_callback_try_missing_claim[of E _ _ now s] google_callback_of_try(2)[of E now _ s]
    by blast
  have 7: "\<forall>t c m e. x = Inr (Some t) \<and> jwt_decode_unverified E t = Inr c \<and>
           claim_email c = JsonStr m \<and> find_user s m = None \<and> validate_email E m = Inl e \<longrightarrow>
       google_callback E now x s = (?fail, s)"
    using google_callback_try_rejected_email[of E _ _ _ s _ now]
      google_callback_of_try(2)[of E now _ s]
    by blast
  have 8: "\<forall>t c m g u. x = Inr (Some t) \<and> t \<noteq> [] \<and> jwt_decode_unverified E t = Inr c \<and>
           claim_email c = JsonStr m \<and> m \<noteq> [] \<and> claim_sub c = JsonStr g \<and> g \<noteq> [] \<and>
           find_user s m = Some u \<longrightarrow>
       fst (google_callback E now x s) =
         Inr (RedirectResponse (frontend_url E @ ''/auth/callback?token='' @
                jwt_encode E \<lparr>sub = User.email u, user_id = User.id u,
                              exp = now + 3600000000\<rparr>))"
    using google_callback_try_known_user[of E _ _ _ _ s _ now]
      google_callback_of_try(1)[of E now _ s]
    by blast
  have 9: "\<forall>t c m g m'. x = Inr (Some t) \<and> t \<noteq> [] \<and> jwt_decode_unverified E t = Inr c \<and>
           claim_email c = JsonStr m \<and> m \<noteq> [] \<and> claim_sub c = JsonStr g \<and> g \<noteq> [] \<and>
           find_user s m = None \<and> validate_email E m = Inr m' \<longrightarrow>
       fst (google_callback E now x s) =
         Inr (RedirectResponse (frontend_url E @ ''/auth/callback?token='' @
                jwt_encode E \<lparr>sub = m', user_id = Some (next_id s),
                              exp = now + 3600000000\<rparr>))"
    using google_callback_try_new_user[of E _ _ _ _ s _ now]
      google_callback_of_try(1)[of E now _ s]
    by blast
  from 1 2 3 4 5 6 7 8 9 show ?thesis by blast
qed

theorem google_callback_always_redirects_witness:
  "google_callback example_env 0 (Inl (OtherError ''GetAccessTokenError'')) empty_db =
     (Inr (RedirectResponse ''http://localhost:3000/auth/login?error=authentication_failed''),
      empty_db) \<and>
   jwt_decode_unverified example_env ''bad'' = Inl (OtherError ''JWTError'') \<and>
   google_callback example_env 0 (Inr (Some ''bad'')) empty_db =
     (Inr (RedirectResponse ''http://localhost:3000/auth/login?error=authentication_failed''),
      empty_db) \<and>
   find_user empty_db ''A@X.COM'' = None \<and>
   validate_email example_env ''A@X.COM'' = Inr ''A@x.com'' \<and>
   fst (google_callback example_env 5 (Inr (Some ''A@X.COM'')) empty_db) =
     Inr (RedirectResponse ''http://localhost:3000/auth/callback?token=jwt:A@x.com'') \<and>
   find_user db_user ''a@x.com'' = Some user_a \<and>
   fst (google_callback example_env 5 (Inr (Some ''a@x.com'')) db_user) =
     Inr (RedirectResponse ''http://localhost:3000/auth/callback?token=jwt:a@x.com'')"
proof -
  let ?c = "\<lambda>t. \<lparr>claim_email = JsonStr t, claim_sub = JsonStr ''g-1'', claim_name = Absent,
                  claim_given_name = Absent, claim_family_name = Absent\<rparr>"
  have f: "frontend_url example_env = ''http://localhost:3000''"
    by (simp add: example_env_def)
  have j: "jwt_encode example_env \<lparr>sub = m, user_id = i, exp = e\<rparr> = ''jwt:'' @ m" for m i e
    by (simp add: example_env_def)
  have bad: "jwt_decode_unverified example_env ''bad'' = Inl (OtherError ''JWTError'')"
    by (simp add: example_env_def)
  have 1: "google_callback example_env 0 (Inl (OtherError ''GetAccessTokenError'')) empty_db =
     (Inr (RedirectResponse ''http://localhost:3000/auth/login?error=authentication_failed''),
      empty_db)"
    using google_callback_always_redirects
            [of example_env 0 "Inl (OtherError ''GetAccessTokenError'')" empty_db]
    by (simp add: f)
  have 2: "google_callback example_env 0 (Inr (Some ''bad'')) empty_db =
     (Inr (RedirectResponse ''http://localhost:3000/auth/login?error=authentication_failed''),
      empty_db)"
    using bad google_callback_always_redirects [of example_env 0 "Inr (Some ''bad'')" empty_db]
    by (simp add: f)
  have dA: "jwt_decode_unverified example_env ''A@X.COM'' = Inr (?c ''A@X.COM'')"
    by (simp add: example_env_def)
  have nA: "find_user empty_db ''A@X.COM'' = None"
    by (simp add: find_user_def empty_db_def)
  have vA: "validate_email example_env ''A@X.COM'' = Inr ''A@x.com''"
    by (simp add: example_env_def lower_domain_def lower_ascii_def)
  have "fst (google_callback example_env 5 (Inr (Some ''A@X.COM'')) empty_db) =
     Inr (RedirectResponse (frontend_url example_env @ ''/auth/callback?token='' @
            jwt_encode example_env \<lparr>sub = ''A@x.com'', user_id = Some (next_id empty_db),
                                     exp = 5 + 3600000000\<rparr>))"
    using dA nA vA
      google_callback_always_redirects [of example_env 5 "Inr (Some ''A@X.COM'')" empty_db]
    by simp
  then have 3: "fst (google_callback example_env 5 (Inr (Some ''A@X.COM'')) empty_db) =
     Inr (RedirectResponse ''http://localhost:3000/auth/callback?token=jwt:A@x.com'')"
    by (simp add: f j)
  have da: "jwt_decode_unverified example_env ''a@x.com'' = Inr (?c ''a@x.com'')"
    by (simp add: example_env_def)
  have ka: "find_user db_user ''a@x.com'' = Some user_a"
    by (simp add: find_user_def db_user_def user_a_def)
  have "fst (google_callback example_env 5 (Inr (Some ''a@x.com'')) db_user) =
     Inr (RedirectResponse (frontend_url example_env @ ''/auth/callback?token='' @
            jwt_encode example_env \<lparr>sub = User.email user_a, user_id = User.id user_a,
                                     exp = 5 + 3600000000\<rparr>))"
    using da ka
      google_callback_always_redirects [of example_env 5 "Inr (Some ''a@x.com'')" db_user]
    by simp
  then have 4: "fst (google_callback example_env 5 (Inr (Some ''a@x.com'')) db_user) =
     Inr (RedirectResponse ''http://localhost:3000/auth/callback?token=jwt:a@x.com'')"
    by (simp add: f j user_a_def)
  from 1 bad 2 nA vA 3 ka 4 show ?thesis by simp
qed

section \<open>One Identity per email\<close>

text \<open>
  C2, on the requests where the code departs from it. The collection of users has no
  unique index on the email and \<open>insert\<close> has no check of its own; \<open>signup\<close> and the
  federated login look the email up before they write, \<open>verify_otp\<close> inserts without
  looking. Starting from the empty database: a signup for a@x.com, a federated login
  of the same email, which creates the Identity, and then the verification of the OTP,
  which succeeds and inserts a second Identity with that email.
\<close>

theorem verify_otp_inserts_duplicate_identity:
  "fst (verify_otp example_env 2 (verify_a ''123456'')
         (snd (google_callback example_env 1 (Inr (Some ''a@x.com''))
           (snd (signup example_env 0 example_salt ''123456'' True signup_a empty_db))))) =
     Inr (VerifiedResponse ''Email verified successfully! Welcome to KAANOONGPT!''
            ''jwt:a@x.com'' ''bearer''
            \<lparr>user_summary.email = ''a@x.com'', user_summary.full_name = ''Ann'',
             user_summary.organization_type = ''student''\<rparr>) \<and>
   map User.email (users (snd (verify_otp example_env 2 (verify_a ''123456'')
         (snd (google_callback example_env 1 (Inr (Some ''a@x.com''))
           (snd (signup example_env 0 example_salt ''123456'' True signup_a empty_db))))))) =
     [''a@x.com'', ''a@x.com'']"
proof -
  let ?hp = "''$2b$12$abcdefghijklmnopqrstuvlongpassword1000000000000000000000000000000000000000000000000000''"
  let ?p = "\<lparr>PendingUser.id = Some 0, PendingUser.email = ''a@x.com'',
             PendingUser.full_name = ''Ann'', PendingUser.date_of_birth = 0,
             PendingUser.organization_type = ''student'', PendingUser.organization_name = None,
             PendingUser.hashed_password = ?hp, otp_code = ''123456'', otp_created_at = 0,
             otp_attempts = 0, PendingUser.created_at = 0\<rparr>"
  let ?g = "\<lparr>User.id = Some 1, User.email = ''a@x.com'', User.full_name = ''a'',
             User.date_of_birth = None, User.organization_type = ''individual'',
             User.organization_name = None, User.hashed_password = None,
             User.google_id = Some ''g-1'', User.is_email_verified = True,
             User.is_active = True, User.is_superuser = False, User.created_at = 0,
             User.updated_at = None\<rparr>"
  have h: "hash_password example_env example_salt ''longpassword1'' = Inr ?hp"
    by (simp add: hash_password_def and_then_def example_env_def example_salt_def)
  have d: "strptime_ymd example_env ''1990-01-01'' = Inr 0"
    by (simp add: example_env_def)
  have 1: "snd (signup example_env 0 example_salt ''123456'' True signup_a empty_db) =
             \<lparr>users = [], pending_users = [?p], next_id = 1\<rparr>"
    by (simp add: signup_def h d find_user_def find_pending_def insert_pending_def
        stored_pending_def bson_datetime_def empty_db_def signup_a_def Let_def)
  have 2: "snd (google_callback example_env 1 (Inr (Some ''a@x.com''))
                 \<lparr>users = [], pending_users = [?p], next_id = 1\<rparr>) =
             \<lparr>users = [?g], pending_users = [?p], next_id = 2\<rparr>"
    by (simp add: google_callback_def google_callback_try_def find_or_create_user_def
        claims_full_name_def dict_get_def dict_get_default_def format_value_def
        strip_def is_space_def falsy_def find_user_def insert_user_def
        stored_user_def bson_datetime_def lower_domain_def lower_ascii_def
        example_env_def Let_def)
  show ?thesis
    unfolding 1 2
    by (simp add: verify_otp_def find_pending_def verify_a_def
      is_otp_expired_def is_locked_def timedelta_minutes_def insert_user_def delete_pending_def
      stored_user_def bson_datetime_def
      create_access_token_def example_env_def user_summary_of_def Let_def)
qed

text \<open>
  The federated login by itself: it looks up the email as the claims spell it and
  stores the normalised one, so two logins with the claim A@X.COM, which no stored
  email equals, create two Identities with the email A@x.com.
\<close>

lemma federated_login_twice_duplicates:
  "map User.email (users (snd (google_callback example_env 2 (Inr (Some ''A@X.COM''))
         (snd (google_callback example_env 1 (Inr (Some ''A@X.COM'')) empty_db))))) =
     [''A@x.com'', ''A@x.com'']"
proof -
  let ?g = "\<lambda>i. \<lparr>User.id = Some i, User.email = ''A@x.com'', User.full_name = ''A'',
             User.date_of_birth = None, User.organization_type = ''individual'',
             User.organization_name = None, User.hashed_password = None,
             User.google_id = Some ''g-1'', User.is_email_verified = True,
             User.is_active = True, User.is_superuser = False, User.created_at = 0,
             User.updated_at = None\<rparr>"
  have 1: "snd (google_callback example_env 1 (Inr (Some ''A@X.COM'')) empty_db) =
             \<lparr>users = [?g 0], pending_users = [], next_id = 1\<rparr>"
    by (simp add: google_callback_def google_callback_try_def find_or_create_user_def
        claims_full_name_def dict_get_def dict_get_default_def format_value_def
        strip_def is_space_def falsy_def find_user_def insert_user_def
        stored_user_def bson_datetime_def lower_domain_def lower_ascii_def
        example_env_def empty_db_def Let_def)
  show ?thesis
    unfolding 1
    by (simp add: google_callback_def google_callback_try_def find_or_create_user_def
        claims_full_name_def dict_get_def dict_get_default_def format_value_def
        strip_def is_space_def falsy_def find_user_def insert_user_def
        stored_user_def bson_datetime_def lower_domain_def lower_ascii_def
        example_env_def Let_def)
qed

section \<open>The credential hasher\<close>

lemma hash_password_returns:
  assumes "p \<noteq> []"
    and "str_encode E p = Inr pb"
    and "str_encode E (sha256_hexdigest E pb) = Inr sb"
    and "bcrypt_hashpw E sb salt = Inr hb"
    and "bytes_decode E hb = Inr h"
  shows "hash_password E salt p = Inr h"
  using assms by (simp add: hash_password_def and_then_def)

lemma hash_password_empty:
  "hash_password E salt [] = Inl (ValueError ''Password cannot be empty'')"
  by (simp add: hash_password_def)

text \<open>
  C9. \<open>verify_password\<close> returns a boolean on every pair of inputs and raises nothing:
  \<open>False\<close> when the password or the stored hash is empty, and \<open>False\<close> when the check
  of the slow hash raises, as it does on a malformed stored hash.
\<close>

theorem verify_password_never_raises:
  "(\<exists>b. verify_password E p h = Inr b) \<and>
   (p = [] \<or> h = [] \<longrightarrow> verify_password E p h = Inr False) \<and>
   (\<forall>pb sb hb e. str_encode E p = Inr pb \<and> str_encode E (sha256_hexdigest E pb) = Inr sb \<and>
        str_encode E h = Inr hb \<and> bcrypt_checkpw E sb hb = Inl e \<longrightarrow>
        verify_password E p h = Inr False)"
  by (auto simp: verify_password_def and_then_def split: sum.splits)

theorem verify_password_never_raises_witness:
  "verify_password example_env [] ''$2b$12$abcdefghijklmnopqrstuvstored'' = Inr False \<and>
   verify_password example_env ''longpassword1'' [] = Inr False \<and>
   bcrypt_checkpw example_env
     ''longpassword1000000000000000000000000000000000000000000000000000'' ''not-a-hash'' =
     Inl (ValueError ''Invalid salt'') \<and>
   verify_password example_env ''longpassword1'' ''not-a-hash'' = Inr False"
proof -
  have 1: "verify_password example_env [] ''$2b$12$abcdefghijklmnopqrstuvstored'' = Inr False"
    using verify_password_never_raises
            [of example_env "[]" "''$2b$12$abcdefghijklmnopqrstuvstored''"]
    by simp
  have 2: "verify_password example_env ''longpassword1'' [] = Inr False"
    using verify_password_never_raises [of example_env "''longpassword1''" "[]"]
    by simp
  have e1: "str_encode example_env ''longpassword1'' = Inr ''longpassword1''"
    by (simp add: example_env_def)
  have e2: "str_encode example_env (sha256_hexdigest example_env ''longpassword1'') =
              Inr ''longpassword1000000000000000000000000000000000000000000000000000''"
    by (simp add: example_env_def)
  have e3: "str_encode example_env ''not-a-hash'' = Inr ''not-a-hash''"
    by (simp add: example_env_def)
  have c: "bcrypt_checkpw example_env
             ''longpassword1000000000000000000000000000000000000000000000000000'' ''not-a-hash'' =
             Inl (ValueError ''Invalid salt'')"
    by (simp add: example_env_def)
  have 3: "verify_password example_env ''longpassword1'' ''not-a-hash'' = Inr False"
    using verify_password_never_raises [of example_env "''longpassword1''" "''not-a-hash''"]
      e1 e2 e3 c
    by blast
  from 1 2 c 3 show ?thesis by simp
qed

text \<open>
  C3. Whenever \<open>hash_password\<close> returns a hash for a password, of whatever length,
  \<open>verify_password\<close> accepts the password against that hash. The libraries are assumed
  to do what they document: the encoded SHA-256 hex digest has 64 bytes; for inputs of
  at most 72 bytes, \<open>bcrypt.checkpw\<close> accepts what \<open>bcrypt.hashpw\<close> produced, which is
  not empty; encoding undoes decoding.
\<close>

theorem verify_accepts_own_hash:
  assumes sha: "\<forall>b sb. str_encode E (sha256_hexdigest E b) = Inr sb \<longrightarrow> length sb = 64"
    and bcrypt: "\<forall>x hb. length x \<le> 72 \<longrightarrow> bcrypt_hashpw E x salt = Inr hb \<longrightarrow>
                    hb \<noteq> [] \<and> bcrypt_checkpw E x hb = Inr True"
    and codec: "\<forall>b t. bytes_decode E b = Inr t \<longrightarrow>
                    str_encode E t = Inr b \<and> (b \<noteq> [] \<longrightarrow> t \<noteq> [])"
    and h: "hash_password E salt p = Inr h"
  shows "verify_password E p h = Inr True"
proof -
  from h have pne: "p \<noteq> []"
    by (auto simp: hash_password_def split: if_splits)
  from h pne obtain pb where pb: "str_encode E p = Inr pb"
    by (auto simp: hash_password_def and_then_def split: sum.splits)
  from h pne pb obtain sb where sb: "str_encode E (sha256_hexdigest E pb) = Inr sb"
    by (auto simp: hash_password_def and_then_def Let_def split: sum.splits)
  from h pne pb sb obtain hb where hb: "bcrypt_hashpw E sb salt = Inr hb"
    by (auto simp: hash_password_def and_then_def Let_def split: sum.splits)
  from h pne pb sb hb have dec: "bytes_decode E hb = Inr h"
    by (auto simp: hash_password_def and_then_def Let_def split: sum.splits)
  from sha sb have "length sb \<le> 72" by fastforce
  with bcrypt[rule_format, of sb hb] hb
  have hbne: "hb \<noteq> []" and chk: "bcrypt_checkpw E sb hb = Inr True"
    by simp_all
  from codec dec hbne have enc: "str_encode E h = Inr hb" and hne: "h \<noteq> []"
    by auto
  from pne hne pb sb enc chk show ?thesis
    by (simp add: verify_password_def and_then_def)
qed

theorem verify_accepts_own_hash_witness:
  "length long_password = 86 \<and>
   hash_password example_env example_salt long_password =
     Inr ''$2b$12$abcdefghijklmnopqrstuvcorrect horse battery staple correct horse battery staple correc'' \<and>
   verify_password example_env long_password
     ''$2b$12$abcdefghijklmnopqrstuvcorrect horse battery staple correct horse battery staple correc'' =
     Inr True"
proof -
  have sha: "\<forall>b sb. str_encode example_env (sha256_hexdigest example_env b) = Inr sb \<longrightarrow>
               length sb = 64"
    by (auto simp: example_env_def)
  have bcrypt: "\<forall>x hb. length x \<le> 72 \<longrightarrow> bcrypt_hashpw example_env x example_salt = Inr hb \<longrightarrow>
                  hb \<noteq> [] \<and> bcrypt_checkpw example_env x hb = Inr True"
    by (auto simp: example_env_def example_salt_def)
  have codec: "\<forall>b t. bytes_decode example_env b = Inr t \<longrightarrow>
                 str_encode example_env t = Inr b \<and> (b \<noteq> [] \<longrightarrow> t \<noteq> [])"
    by (auto simp: example_env_def)
  have l: "length long_password = 86"
    by (simp add: long_password_def)
  have h: "hash_password example_env example_salt long_password =
     Inr ''$2b$12$abcdefghijklmnopqrstuvcorrect horse battery staple correct horse battery staple correc''"
    by (simp add: hash_password_def and_then_def example_env_def example_salt_def long_password_def)
  from l h verify_accepts_own_hash [OF sha bcrypt codec h] show ?thesis
    by simp
qed

section \<open>Validation of the signup request\<close>

lemma validate_organization_type_accepts:
  "validate_organization_type v = Inr v \<longleftrightarrow>
   v \<in> {''law_firm'', ''corporate'', ''government'', ''ngo'', ''individual'', ''student'',
        ''other''}"
  by (auto simp: validate_organization_type_def allowed_def)

text \<open>
  C4, at the value on which the code departs from the enumeration: the list in
  \<open>validate_organization_type\<close> has seven entries and \<open>researcher\<close> is not one of them,
  so the validator raises for it.
\<close>

theorem validate_organization_type_researcher:
  "validate_organization_type ''researcher'' =
     Inl (ValueError ''organization_type must be one of: law_firm, corporate, government, ngo, individual, student, other'')"
  by (simp add: validate_organization_type_def allowed_def)

text \<open>
  C10. A signup body whose password has fewer than 10 characters does not pass the
  validation of the request: \<open>POST /auth/signup\<close> answers with the list of validation
  errors, the error of the field \<open>password\<close> among them, and the handler, which is what
  hashes and reads and writes the database, does not run.
\<close>

theorem short_password_rejected:
  assumes "length (SignupRequest.password body) < 10"
  shows "\<exists>errors. validate_SignupRequest E now_local body = Inl errors \<and>
           post_signup E now_local now salt new_otp email_sent body s = Inl errors \<and>
           (''password'', ''String should have at least 10 characters'') \<in> set errors"
  using assms
  by (simp add: post_signup_def validate_SignupRequest_def Let_def check_min_length_def str_nat_10)

theorem short_password_rejected_witness:
  "length (SignupRequest.password (signup_a\<lparr>SignupRequest.password := ''short''\<rparr>)) < 10 \<and>
   (\<exists>errors. post_signup example_env 0 0 example_salt ''123456'' True
               (signup_a\<lparr>SignupRequest.password := ''short''\<rparr>) empty_db = Inl errors \<and>
             (''password'', ''String should have at least 10 characters'') \<in> set errors)"
proof -
  have l: "length (SignupRequest.password (signup_a\<lparr>SignupRequest.password := ''short''\<rparr>)) < 10"
    by simp
  from l short_password_rejected [OF l, of example_env 0 0 example_salt "''123456''" True empty_db]
  show ?thesis by blast
qed

end
